theory Spec2Isabelle
  imports Complex_Main
begin

section \<open>Sprites of \<^verbatim>\<open>gd.image.sprite\<close>\<close>

text \<open>
  The module \<^verbatim>\<open>src/gd/image/sprite.py\<close> defines the class \<^verbatim>\<open>Sprite\<close>. Its objects are
  mutable, and so are the \<^verbatim>\<open>Point\<close>, \<^verbatim>\<open>Size\<close> and \<^verbatim>\<open>Rectangle\<close> objects its fields refer
  to: \<^verbatim>\<open>invert_size\<close> changes them in place, \<^verbatim>\<open>copy\<close> hands the same objects to a second
  sprite. The embedding therefore keeps every object in a store, addressed by a
  reference, and every method takes the store and returns the new one.

  Python's \<^verbatim>\<open>float\<close> coordinates are modelled as exact reals (no rounding, no NaN, no
  infinities), its unbounded \<^verbatim>\<open>int\<close> as \<^typ>\<open>int\<close>, \<^verbatim>\<open>str\<close> as \<^typ>\<open>string\<close>.
\<close>

subsection \<open>Objects and the store\<close>

type_synonym ref = nat

record Point =
  x :: real
  y :: real

record Size =
  width :: real
  height :: real

record Rectangle =
  x :: real
  y :: real
  width :: real
  height :: real

text \<open>
  The fields of a sprite, in the order of the class. A field whose value is an object
  holds the reference of that object; \<^verbatim>\<open>sheet_unchecked\<close> is \<^verbatim>\<open>Optional["Sheet"]\<close>, the
  reference of a sheet or \<^verbatim>\<open>None\<close>. The field \<^verbatim>\<open>size\<close> is written \<open>size_s\<close>, since
  \<open>size\<close> is a constant of HOL.
\<close>

record Sprite =
  name :: string
  aliases :: ref
  relative_offset :: ref
  size_s :: ref
  source_size :: ref
  rectangle :: ref
  rotated :: bool
  copy_level :: int
  sheet_unchecked :: "ref option"

text \<open>
  The store: one table per class and the next free reference. A reference below
  \<open>next_ref\<close> is allocated; a constructor call stores the new object at \<open>next_ref\<close>
  and moves the limit up by one, so that a new object never has the reference of an
  object that exists.
\<close>

record heap =
  sets :: "ref \<Rightarrow> string set"
  points :: "ref \<Rightarrow> Point"
  sizes :: "ref \<Rightarrow> Size"
  rectangles :: "ref \<Rightarrow> Rectangle"
  sprites :: "ref \<Rightarrow> Sprite"
  next_ref :: ref

datatype error = ValueError string

definition new_Point :: "real \<Rightarrow> real \<Rightarrow> heap \<Rightarrow> ref \<times> heap" where
  "new_Point a b h =
     (next_ref h,
      h\<lparr>points := (points h)(next_ref h := \<lparr>Point.x = a, Point.y = b\<rparr>),
        next_ref := next_ref h + 1\<rparr>)"

definition new_Size :: "real \<Rightarrow> real \<Rightarrow> heap \<Rightarrow> ref \<times> heap" where
  "new_Size w d h =
     (next_ref h,
      h\<lparr>sizes := (sizes h)(next_ref h := \<lparr>Size.width = w, Size.height = d\<rparr>),
        next_ref := next_ref h + 1\<rparr>)"

definition new_Rectangle :: "real \<Rightarrow> real \<Rightarrow> real \<Rightarrow> real \<Rightarrow> heap \<Rightarrow> ref \<times> heap" where
  "new_Rectangle a b w d h =
     (next_ref h,
      h\<lparr>rectangles := (rectangles h)(next_ref h :=
           \<lparr>Rectangle.x = a, Rectangle.y = b, Rectangle.width = w, Rectangle.height = d\<rparr>),
        next_ref := next_ref h + 1\<rparr>)"

definition new_set :: "string set \<Rightarrow> heap \<Rightarrow> ref \<times> heap" where
  "new_set A h =
     (next_ref h, h\<lparr>sets := (sets h)(next_ref h := A), next_ref := next_ref h + 1\<rparr>)"

text \<open>
  The constructor that \<^verbatim>\<open>attrs\<close> generates for \<^verbatim>\<open>Sprite\<close>, called with every field given:
  it stores the field values in a new object.
\<close>

definition new_Sprite :: "Sprite \<Rightarrow> heap \<Rightarrow> ref \<times> heap" where
  "new_Sprite v h =
     (next_ref h, h\<lparr>sprites := (sprites h)(next_ref h := v), next_ref := next_ref h + 1\<rparr>)"

subsection \<open>Geometry\<close>

text \<open>
  \<^verbatim>\<open>gd/image/geometry.py\<close> is not among the sources. The six methods of \<^verbatim>\<open>Point\<close>, \<^verbatim>\<open>Size\<close>
  and \<^verbatim>\<open>Rectangle\<close> that \<^verbatim>\<open>Sprite\<close> calls are modelled from the specification (section 3
  and section 4.1): the mutating form swaps the two components of the object in place
  and returns the object, the other form returns a new object with the components
  swapped and leaves the object alone.
\<close>

text \<open>Modelled from the spec: \<^verbatim>\<open>Point.invert\<close> of \<^verbatim>\<open>gd/image/geometry.py\<close>, missing from the
  sources; "\<^verbatim>\<open>invert()\<close> swaps x and y in place", "mutates and returns self".\<close>

definition Point_invert :: "ref \<Rightarrow> heap \<Rightarrow> ref \<times> heap" where
  "Point_invert self h =
     (self,
      h\<lparr>points := (points h)(self :=
           \<lparr>Point.x = Point.y (points h self), Point.y = Point.x (points h self)\<rparr>)\<rparr>)"

text \<open>Modelled from the spec: \<^verbatim>\<open>Point.inverted\<close> of \<^verbatim>\<open>gd/image/geometry.py\<close>, missing from
  the sources; "\<^verbatim>\<open>inverted()\<close> returns a swapped copy".\<close>

definition Point_inverted :: "ref \<Rightarrow> heap \<Rightarrow> ref \<times> heap" where
  "Point_inverted self h = new_Point (Point.y (points h self)) (Point.x (points h self)) h"

text \<open>Modelled from the spec: \<^verbatim>\<open>Size.invert\<close> of \<^verbatim>\<open>gd/image/geometry.py\<close>, missing from the
  sources; "same invert semantics (swap width/height)", in place, returning self.\<close>

definition Size_invert :: "ref \<Rightarrow> heap \<Rightarrow> ref \<times> heap" where
  "Size_invert self h =
     (self,
      h\<lparr>sizes := (sizes h)(self :=
           \<lparr>Size.width = Size.height (sizes h self), Size.height = Size.width (sizes h self)\<rparr>)\<rparr>)"

text \<open>Modelled from the spec: \<^verbatim>\<open>Size.inverted\<close> of \<^verbatim>\<open>gd/image/geometry.py\<close>, missing from the
  sources; the non-mutating form, a new \<^verbatim>\<open>Size\<close> with width and height swapped.\<close>

definition Size_inverted :: "ref \<Rightarrow> heap \<Rightarrow> ref \<times> heap" where
  "Size_inverted self h = new_Size (Size.height (sizes h self)) (Size.width (sizes h self)) h"

text \<open>Modelled from the spec: \<^verbatim>\<open>Rectangle.invert_size\<close> of \<^verbatim>\<open>gd/image/geometry.py\<close>, missing
  from the sources; "\<^verbatim>\<open>invert_size()\<close> swaps width/height without moving the origin", in
  place, returning self.\<close>

definition Rectangle_invert_size :: "ref \<Rightarrow> heap \<Rightarrow> ref \<times> heap" where
  "Rectangle_invert_size self h =
     (self,
      h\<lparr>rectangles := (rectangles h)(self :=
           \<lparr>Rectangle.x = Rectangle.x (rectangles h self),
            Rectangle.y = Rectangle.y (rectangles h self),
            Rectangle.width = Rectangle.height (rectangles h self),
            Rectangle.height = Rectangle.width (rectangles h self)\<rparr>)\<rparr>)"

text \<open>Modelled from the spec: \<^verbatim>\<open>Rectangle.inverted_size\<close> of \<^verbatim>\<open>gd/image/geometry.py\<close>,
  missing from the sources; the non-mutating form of \<^verbatim>\<open>invert_size\<close>, a new \<^verbatim>\<open>Rectangle\<close> at
  the same origin with width and height swapped.\<close>

definition Rectangle_inverted_size :: "ref \<Rightarrow> heap \<Rightarrow> ref \<times> heap" where
  "Rectangle_inverted_size self h =
     new_Rectangle (Rectangle.x (rectangles h self)) (Rectangle.y (rectangles h self))
       (Rectangle.height (rectangles h self)) (Rectangle.width (rectangles h self)) h"

subsection \<open>The methods of \<^verbatim>\<open>Sprite\<close>\<close>

definition COPY_SUFFIX :: string where
  "COPY_SUFFIX = ''_copy''"

text \<open>Python's \<^verbatim>\<open>str * int\<close>: the string repeated, and the empty string for a count that
  is zero or negative.\<close>

definition str_mul :: "string \<Rightarrow> int \<Rightarrow> string" where
  "str_mul t n = concat (replicate (nat n) t)"

definition name_with_copy :: "ref \<Rightarrow> heap \<Rightarrow> string" where
  "name_with_copy self h =
     name (sprites h self) @ str_mul COPY_SUFFIX (copy_level (sprites h self))"

definition next_copy_level :: "ref \<Rightarrow> heap \<Rightarrow> int" where
  "next_copy_level self h = copy_level (sprites h self) + 1"

definition invert_size :: "ref \<Rightarrow> heap \<Rightarrow> ref \<times> heap" where
  "invert_size self h =
     (let (_, h1) = Size_invert (size_s (sprites h self)) h;
          (_, h2) = Size_invert (source_size (sprites h1 self)) h1;
          (_, h3) = Rectangle_invert_size (rectangle (sprites h2 self)) h2
      in (self, h3))"

text \<open>The arguments of the constructor call are evaluated from left to right, each in the
  store the one before has left.\<close>

definition inverted_size :: "ref \<Rightarrow> heap \<Rightarrow> ref \<times> heap" where
  "inverted_size self h =
     (let (sz, h1) = Size_inverted (size_s (sprites h self)) h;
          (ss, h2) = Size_inverted (source_size (sprites h1 self)) h1;
          (rc, h3) = Rectangle_inverted_size (rectangle (sprites h2 self)) h2
      in new_Sprite
           \<lparr>name = name (sprites h self),
            aliases = aliases (sprites h self),
            relative_offset = relative_offset (sprites h self),
            size_s = sz,
            source_size = ss,
            rectangle = rc,
            rotated = rotated (sprites h3 self),
            copy_level = next_copy_level self h3,
            sheet_unchecked = sheet_unchecked (sprites h3 self)\<rparr> h3)"

text \<open>\<^verbatim>\<open>self.relative_offset.__class__\<close> is \<^verbatim>\<open>Point\<close>; \<^verbatim>\<open>/\<close> is Python's true division.\<close>

definition offset :: "ref \<Rightarrow> heap \<Rightarrow> ref \<times> heap" where
  "offset self h =
     new_Point
       (Point.x (points h (relative_offset (sprites h self)))
          + (Size.width (sizes h (source_size (sprites h self)))
               - Rectangle.width (rectangles h (rectangle (sprites h self)))) / 2)
       (Point.y (points h (relative_offset (sprites h self)))
          - (Size.height (sizes h (source_size (sprites h self)))
               - Rectangle.height (rectangles h (rectangle (sprites h self)))) / 2)
       h"

text \<open>A \<^verbatim>\<open>raise\<close> is the left injection; the store it leaves is the store it found.\<close>

definition get_sheet :: "ref \<Rightarrow> heap \<Rightarrow> (error + ref) \<times> heap" where
  "get_sheet self h =
     (case sheet_unchecked (sprites h self) of
        None \<Rightarrow>
          (Inl (ValueError (''Sheet is not attached to '' @ name_with_copy self h @ ''.'')), h)
      | Some result \<Rightarrow> (Inr result, h))"

definition set_sheet :: "ref \<Rightarrow> ref \<Rightarrow> heap \<Rightarrow> unit \<times> heap" where
  "set_sheet self sheet h =
     ((), h\<lparr>sprites := (sprites h)(self := (sprites h self)\<lparr>sheet_unchecked := Some sheet\<rparr>)\<rparr>)"

definition delete_sheet :: "ref \<Rightarrow> heap \<Rightarrow> unit \<times> heap" where
  "delete_sheet self h =
     ((), h\<lparr>sprites := (sprites h)(self := (sprites h self)\<lparr>sheet_unchecked := None\<rparr>)\<rparr>)"

definition attach_sheet :: "ref \<Rightarrow> ref \<Rightarrow> heap \<Rightarrow> ref \<times> heap" where
  "attach_sheet self sheet h = (let (_, h1) = set_sheet self sheet h in (self, h1))"

definition detach_sheet :: "ref \<Rightarrow> heap \<Rightarrow> ref \<times> heap" where
  "detach_sheet self h = (let (_, h1) = delete_sheet self h in (self, h1))"

definition is_rotated :: "ref \<Rightarrow> heap \<Rightarrow> bool" where
  "is_rotated self h = rotated (sprites h self)"

definition copy :: "ref \<Rightarrow> heap \<Rightarrow> ref \<times> heap" where
  "copy self h =
     new_Sprite
       \<lparr>name = name (sprites h self),
        aliases = aliases (sprites h self),
        relative_offset = relative_offset (sprites h self),
        size_s = size_s (sprites h self),
        source_size = source_size (sprites h self),
        rectangle = rectangle (sprites h self),
        rotated = rotated (sprites h self),
        copy_level = next_copy_level self h,
        sheet_unchecked = sheet_unchecked (sprites h self)\<rparr> h"

subsection \<open>Callers\<close>

text \<open>A reference is allocated when it is below the limit of the store; a sprite is
  allocated when it is and the objects its fields refer to are.\<close>

definition Sprite_allocated :: "heap \<Rightarrow> ref \<Rightarrow> bool" where
  "Sprite_allocated h self \<longleftrightarrow>
     self < next_ref h \<and>
     aliases (sprites h self) < next_ref h \<and>
     relative_offset (sprites h self) < next_ref h \<and>
     size_s (sprites h self) < next_ref h \<and>
     source_size (sprites h self) < next_ref h \<and>
     rectangle (sprites h self) < next_ref h"

text \<open>The \<^verbatim>\<open>__eq__\<close> that \<^verbatim>\<open>attrs\<close> generates compares two sprites by the tuples of their
  field values; sets and the geometry objects compare by value, sheets are compared by
  reference here.\<close>

definition field_values ::
  "heap \<Rightarrow> ref \<Rightarrow>
     string \<times> string set \<times> Point \<times> Size \<times> Size \<times> Rectangle \<times> bool \<times> int \<times> ref option" where
  "field_values h a =
     (name (sprites h a), sets h (aliases (sprites h a)),
      points h (relative_offset (sprites h a)), sizes h (size_s (sprites h a)),
      sizes h (source_size (sprites h a)), rectangles h (rectangle (sprites h a)),
      rotated (sprites h a), copy_level (sprites h a), sheet_unchecked (sprites h a))"

text \<open>A caller's sequence of \<^verbatim>\<open>attach_sheet\<close> and \<^verbatim>\<open>detach_sheet\<close> calls on one sprite, and
  the binding the sequence should leave: the sheet of the last \<^verbatim>\<open>attach_sheet\<close> when no
  \<^verbatim>\<open>detach_sheet\<close> follows it.\<close>

datatype sheet_call = Attach ref | Detach

fun sheet_calls :: "ref \<Rightarrow> sheet_call list \<Rightarrow> heap \<Rightarrow> heap" where
  "sheet_calls self [] h = h"
| "sheet_calls self (Attach sheet # cs) h = sheet_calls self cs (snd (attach_sheet self sheet h))"
| "sheet_calls self (Detach # cs) h = sheet_calls self cs (snd (detach_sheet self h))"

fun last_attached :: "ref option \<Rightarrow> sheet_call list \<Rightarrow> ref option" where
  "last_attached b [] = b"
| "last_attached b (Attach sheet # cs) = last_attached (Some sheet) cs"
| "last_attached b (Detach # cs) = last_attached None cs"

text \<open>The store of a program that has created no object yet.\<close>

definition empty_heap :: heap where
  "empty_heap =
     \<lparr>sets = (\<lambda>_. {}),
      points = (\<lambda>_. \<lparr>Point.x = 0, Point.y = 0\<rparr>),
      sizes = (\<lambda>_. \<lparr>Size.width = 0, Size.height = 0\<rparr>),
      rectangles = (\<lambda>_.
        \<lparr>Rectangle.x = 0, Rectangle.y = 0, Rectangle.width = 0, Rectangle.height = 0\<rparr>),
      sprites = (\<lambda>_.
        \<lparr>name = [], aliases = 0, relative_offset = 0, size_s = 0, source_size = 0,
         rectangle = 0, rotated = False, copy_level = 0, sheet_unchecked = None\<rparr>),
      next_ref = 0\<rparr>"

text \<open>
  \<^verbatim>\<open>Sprite(name=nm, aliases=set(A), relative_offset=Point(*ro), size=Size(*sz),
  source_size=Size(*ss), rectangle=Rectangle(*rc))\<close>: every field a new object of its own,
  and the defaults of the class for \<^verbatim>\<open>rotated\<close>, \<^verbatim>\<open>copy_level\<close> and \<^verbatim>\<open>sheet_unchecked\<close>.
\<close>

definition fresh_Sprite ::
  "string \<Rightarrow> string set \<Rightarrow> real \<times> real \<Rightarrow> real \<times> real \<Rightarrow> real \<times> real
     \<Rightarrow> real \<times> real \<times> real \<times> real \<Rightarrow> heap \<Rightarrow> ref \<times> heap" where
  "fresh_Sprite nm A ro sz ss rc h =
     (let (al, h1) = new_set A h;
          (p, h2) = new_Point (fst ro) (snd ro) h1;
          (s1, h3) = new_Size (fst sz) (snd sz) h2;
          (s2, h4) = new_Size (fst ss) (snd ss) h3;
          (r, h5) = new_Rectangle (fst rc) (fst (snd rc)) (fst (snd (snd rc)))
                      (snd (snd (snd rc))) h4
      in new_Sprite
           \<lparr>name = nm, aliases = al, relative_offset = p, size_s = s1, source_size = s2,
            rectangle = r, rotated = False, copy_level = 0, sheet_unchecked = None\<rparr> h5)"

text \<open>
  \<^verbatim>\<open>sz = Size(w, d); Sprite(name=nm, aliases=set(), relative_offset=Point(0, 0), size=sz,
  source_size=sz, rectangle=Rectangle(0, 0, w, d))\<close>: an untrimmed sprite whose \<^verbatim>\<open>size\<close> and
  \<^verbatim>\<open>source_size\<close> are one \<^verbatim>\<open>Size\<close> object.
\<close>

definition shared_Size_Sprite :: "string \<Rightarrow> real \<Rightarrow> real \<Rightarrow> heap \<Rightarrow> ref \<times> heap" where
  "shared_Size_Sprite nm w d h =
     (let (al, h1) = new_set {} h;
          (p, h2) = new_Point 0 0 h1;
          (sz, h3) = new_Size w d h2;
          (r, h4) = new_Rectangle 0 0 w d h3
      in new_Sprite
           \<lparr>name = nm, aliases = al, relative_offset = p, size_s = sz, source_size = sz,
            rectangle = r, rotated = False, copy_level = 0, sheet_unchecked = None\<rparr> h4)"

text \<open>The two sprites the examples use: one with an object of its own in every field, and
  one whose \<^verbatim>\<open>size\<close> and \<^verbatim>\<open>source_size\<close> are the same object.\<close>

definition hero_example :: "ref \<times> heap" where
  "hero_example =
     fresh_Sprite ''hero'' {''knight''} (0, 0) (60, 80) (100, 80) (10, 20, 60, 80) empty_heap"

definition shared_example :: "ref \<times> heap" where
  "shared_example = shared_Size_Sprite ''hero'' 60 80 empty_heap"

subsection \<open>What \<^verbatim>\<open>invert_size\<close> is to do\<close>

text \<open>
  After \<^verbatim>\<open>self.invert_size()\<close>: the call has returned \<^verbatim>\<open>self\<close>, the sprite refers to the
  objects it referred to, and \<^verbatim>\<open>size\<close>, \<^verbatim>\<open>source_size\<close> and \<^verbatim>\<open>rectangle\<close> each have the width
  and the height they had, exchanged, the rectangle at the origin it had.
\<close>

definition invert_size_post :: "heap \<Rightarrow> ref \<Rightarrow> bool" where
  "invert_size_post h self \<longleftrightarrow>
     (let (r, h') = invert_size self h
      in r = self \<and>
         sprites h' self = sprites h self \<and>
         sizes h' (size_s (sprites h self)) =
           \<lparr>Size.width = Size.height (sizes h (size_s (sprites h self))),
            Size.height = Size.width (sizes h (size_s (sprites h self)))\<rparr> \<and>
         sizes h' (source_size (sprites h self)) =
           \<lparr>Size.width = Size.height (sizes h (source_size (sprites h self))),
            Size.height = Size.width (sizes h (source_size (sprites h self)))\<rparr> \<and>
         rectangles h' (rectangle (sprites h self)) =
           \<lparr>Rectangle.x = Rectangle.x (rectangles h (rectangle (sprites h self))),
            Rectangle.y = Rectangle.y (rectangles h (rectangle (sprites h self))),
            Rectangle.width = Rectangle.height (rectangles h (rectangle (sprites h self))),
            Rectangle.height = Rectangle.width (rectangles h (rectangle (sprites h self)))\<rparr>)"

text \<open>
  \<^verbatim>\<open>self.inverted_size()\<close> and \<^verbatim>\<open>self.copy().invert_size()\<close>, both run from one store, return
  sprites that are equal field by field.
\<close>

definition inverted_size_agrees :: "heap \<Rightarrow> ref \<Rightarrow> bool" where
  "inverted_size_agrees h self \<longleftrightarrow>
     (let (a, h1) = inverted_size self h;
          (c, h2) = copy self h;
          (c', h3) = invert_size c h2
      in field_values h1 a = field_values h3 c')"

section \<open>Properties\<close>

lemmas new_defs = new_Point_def new_Size_def new_Rectangle_def new_set_def new_Sprite_def

lemmas invert_defs = invert_size_def Size_invert_def Rectangle_invert_size_def

lemmas inverted_defs = inverted_size_def Size_inverted_def Rectangle_inverted_size_def

lemmas example_defs = hero_example_def shared_example_def fresh_Sprite_def
  shared_Size_Sprite_def empty_heap_def

lemmas sheet_defs = attach_sheet_def detach_sheet_def set_sheet_def delete_sheet_def

lemma hero_example_refs:
  "fst hero_example = 5 \<and> next_ref (snd hero_example) = 6 \<and>
   sprites (snd hero_example) 5 =
     \<lparr>name = ''hero'', aliases = 0, relative_offset = 1, size_s = 2, source_size = 3,
      rectangle = 4, rotated = False, copy_level = 0, sheet_unchecked = None\<rparr>"
  by (simp add: example_defs new_defs split_def)

lemma shared_example_refs:
  "fst shared_example = 4 \<and> next_ref (snd shared_example) = 5 \<and>
   sprites (snd shared_example) 4 =
     \<lparr>name = ''hero'', aliases = 0, relative_offset = 1, size_s = 2, source_size = 2,
      rectangle = 3, rotated = False, copy_level = 0, sheet_unchecked = None\<rparr>"
  by (simp add: example_defs new_defs split_def)

subsection \<open>The offset\<close>

text \<open>
  Claim C1. The point that \<^verbatim>\<open>offset\<close> returns has the coordinates
  \<open>relative_offset.x + (source_size.width - rectangle.width) / 2\<close> and
  \<open>relative_offset.y - (source_size.height - rectangle.height) / 2\<close>. For a sprite with
  source size \<open>(100, 80)\<close>, a rectangle of width 60 and height 80 anywhere, and relative
  offset \<open>(0, 0)\<close>, it is the point \<open>(20, 0)\<close>.
\<close>

theorem offset_formula:
  "points (snd (offset self h)) (fst (offset self h)) =
     \<lparr>Point.x = Point.x (points h (relative_offset (sprites h self)))
          + (Size.width (sizes h (source_size (sprites h self)))
               - Rectangle.width (rectangles h (rectangle (sprites h self)))) / 2,
      Point.y = Point.y (points h (relative_offset (sprites h self)))
          - (Size.height (sizes h (source_size (sprites h self)))
               - Rectangle.height (rectangles h (rectangle (sprites h self)))) / 2\<rparr> \<and>
   (let (s, h1) = fresh_Sprite nm A (0, 0) sz (100, 80) (a, b, 60, 80) h0;
        (p, h2) = offset s h1
    in points h2 p = \<lparr>Point.x = 20, Point.y = 0\<rparr>)"
  by (simp add: offset_def fresh_Sprite_def new_defs split_def)

subsection \<open>Copies\<close>

text \<open>
  Claim C2. \<^verbatim>\<open>copy\<close> returns a new sprite. Its name, aliases, relative offset, size, source
  size, rectangle, rotated flag and sheet are those of the sprite copied (the same
  objects), its copy level is one more. The sprite copied keeps every field, and no set,
  point, size or rectangle is created or changed: the copy lies in the rectangle of the
  original.
\<close>

theorem copy_correct:
  assumes "self < next_ref h"
  shows "let (c, h') = copy self h
         in next_ref h \<le> c \<and> c < next_ref h' \<and>
            name (sprites h' c) = name (sprites h self) \<and>
            aliases (sprites h' c) = aliases (sprites h self) \<and>
            relative_offset (sprites h' c) = relative_offset (sprites h self) \<and>
            size_s (sprites h' c) = size_s (sprites h self) \<and>
            source_size (sprites h' c) = source_size (sprites h self) \<and>
            rectangle (sprites h' c) = rectangle (sprites h self) \<and>
            rotated (sprites h' c) = rotated (sprites h self) \<and>
            sheet_unchecked (sprites h' c) = sheet_unchecked (sprites h self) \<and>
            copy_level (sprites h' c) = copy_level (sprites h self) + 1 \<and>
            sprites h' self = sprites h self \<and>
            sets h' = sets h \<and> points h' = points h \<and> sizes h' = sizes h \<and>
            rectangles h' = rectangles h"
  using assms by (simp add: copy_def new_Sprite_def next_copy_level_def)

text \<open>The copy of the example sprite: a second sprite, at copy level 1, in the same
  rectangle, and the example sprite as it was.\<close>

theorem copy_correct_witness:
  "fst hero_example < next_ref (snd hero_example) \<and>
   (let (c, h') = copy (fst hero_example) (snd hero_example)
    in 6 \<le> c \<and>
       name (sprites h' c) = ''hero'' \<and>
       copy_level (sprites h' c) = 1 \<and>
       rectangle (sprites h' c) = rectangle (sprites (snd hero_example) (fst hero_example)) \<and>
       sprites h' (fst hero_example) = sprites (snd hero_example) (fst hero_example) \<and>
       rectangles h' = rectangles (snd hero_example))"
  using copy_correct [of "fst hero_example" "snd hero_example"] hero_example_refs
  by (simp add: split_def Let_def)

text \<open>Appending a string \<open>n\<close> times is appending its \<open>n\<close>-fold repetition.\<close>

lemma funpow_append: "((\<lambda>v. v @ u) ^^ n) t = t @ concat (replicate n u)"
  by (induction n arbitrary: t) (simp_all add: funpow_Suc_right del: funpow.simps(2))

text \<open>
  Claim C3. \<^verbatim>\<open>name_with_copy\<close> is the name with the copy marker appended \<^verbatim>\<open>copy_level\<close>
  times. A new sprite named \<^verbatim>\<open>hero\<close>, its copy and the copy of that copy are called
  \<^verbatim>\<open>hero\<close>, \<^verbatim>\<open>hero_copy\<close> and \<^verbatim>\<open>hero_copy_copy\<close>.
\<close>

theorem name_with_copy_correct:
  "name_with_copy self h =
     ((\<lambda>t. t @ COPY_SUFFIX) ^^ nat (copy_level (sprites h self))) (name (sprites h self)) \<and>
   (let (s0, h0) = fresh_Sprite ''hero'' A ro sz ss rc h;
        (s1, h1) = copy s0 h0;
        (s2, h2) = copy s1 h1
    in name_with_copy s0 h2 = ''hero'' \<and>
       name_with_copy s1 h2 = ''hero_copy'' \<and>
       name_with_copy s2 h2 = ''hero_copy_copy'')"
  by (simp add: funpow_append name_with_copy_def str_mul_def COPY_SUFFIX_def
      fresh_Sprite_def copy_def next_copy_level_def new_defs split_def numeral_2_eq_2)

subsection \<open>The sheet of a sprite\<close>

lemma name_with_copy_sheet_calls:
  "name_with_copy self (sheet_calls self cs h) = name_with_copy self h"
  by (induction self cs h rule: sheet_calls.induct)
     (simp_all add: sheet_defs name_with_copy_def)

lemma sheet_unchecked_sheet_calls:
  "sheet_unchecked (sprites (sheet_calls self cs h) self) =
     last_attached (sheet_unchecked (sprites h self)) cs"
  by (induction self cs h rule: sheet_calls.induct) (simp_all add: sheet_defs)

text \<open>
  Claim C4. After any sequence of \<^verbatim>\<open>attach_sheet\<close> and \<^verbatim>\<open>detach_sheet\<close> calls, \<^verbatim>\<open>get_sheet\<close>
  returns the sheet attached last, and raises \<^verbatim>\<open>ValueError\<close> when a \<^verbatim>\<open>detach_sheet\<close> came
  after it, or when there was no call and the sprite had no sheet. \<^verbatim>\<open>get_sheet\<close> leaves
  the store as it is, also when it raises, and it raises exactly when the sprite has no
  sheet. After \<^verbatim>\<open>attach_sheet\<close> it returns the sheet attached, whatever the sprite had;
  after \<^verbatim>\<open>detach_sheet\<close>, and on a sprite constructed without a sheet, it raises.
\<close>

theorem get_sheet_correct:
  "fst (get_sheet self (sheet_calls self cs h)) =
     (case last_attached (sheet_unchecked (sprites h self)) cs of
        None \<Rightarrow> Inl (ValueError (''Sheet is not attached to '' @ name_with_copy self h @ ''.''))
      | Some sheet \<Rightarrow> Inr sheet) \<and>
   snd (get_sheet self h) = h \<and>
   isl (fst (get_sheet self h)) = (sheet_unchecked (sprites h self) = None) \<and>
   attach_sheet self sheet h = (self, snd (attach_sheet self sheet h)) \<and>
   fst (get_sheet self (snd (attach_sheet self sheet h))) = Inr sheet \<and>
   detach_sheet self h = (self, snd (detach_sheet self h)) \<and>
   isl (fst (get_sheet self (snd (detach_sheet self h)))) \<and>
   isl (fst (get_sheet (fst (new_Sprite (v\<lparr>sheet_unchecked := None\<rparr>) h))
                       (snd (new_Sprite (v\<lparr>sheet_unchecked := None\<rparr>) h))))"
  by (simp add: get_sheet_def name_with_copy_sheet_calls sheet_unchecked_sheet_calls
      sheet_defs new_Sprite_def split: option.split)

subsection \<open>Inversion in place\<close>

text \<open>Where \<^verbatim>\<open>size\<close> and \<^verbatim>\<open>source_size\<close> are two objects, \<^verbatim>\<open>invert_size\<close> exchanges width and
  height of both and of the rectangle, and returns the sprite.\<close>

lemma invert_size_distinct:
  assumes "size_s (sprites h self) \<noteq> source_size (sprites h self)"
  shows "invert_size_post h self"
  using assms by (simp add: invert_size_post_def invert_defs split_def)

text \<open>Where they are one object, the second \<^verbatim>\<open>invert\<close> of \<^verbatim>\<open>invert_size\<close> undoes the first:
  the size that should have been inverted is the size it was.\<close>

lemma invert_size_shared:
  assumes "size_s (sprites h self) = source_size (sprites h self)"
  shows "sizes (snd (invert_size self h)) (size_s (sprites h self)) =
           sizes h (size_s (sprites h self))"
  using assms by (simp add: invert_defs split_def)

text \<open>
  Claim C5. \<^verbatim>\<open>invert_size\<close> is to exchange width and height of \<^verbatim>\<open>size\<close>, of \<^verbatim>\<open>source_size\<close>
  and of \<^verbatim>\<open>rectangle\<close> and to return the sprite. The code does not do so for every sprite.
  On the untrimmed sprite of 60 by 80 whose \<^verbatim>\<open>size\<close> and \<^verbatim>\<open>source_size\<close> are one object, the
  call returns the sprite and inverts the rectangle to 80 by 60, but leaves \<^verbatim>\<open>size\<close> and
  \<^verbatim>\<open>source_size\<close> at 60 by 80, so that the sprite no longer has the size of its rectangle.
  \<^verbatim>\<open>inverted_size\<close>, called on the same sprite, returns a sprite of size 80 by 60.
\<close>

theorem invert_size_shared_fails:
  "fst (invert_size (fst shared_example) (snd shared_example)) = fst shared_example \<and>
   sizes (snd shared_example) (size_s (sprites (snd shared_example) (fst shared_example))) =
     \<lparr>Size.width = 60, Size.height = 80\<rparr> \<and>
   sizes (snd (invert_size (fst shared_example) (snd shared_example)))
     (size_s (sprites (snd shared_example) (fst shared_example))) =
     \<lparr>Size.width = 60, Size.height = 80\<rparr> \<and>
   sizes (snd (invert_size (fst shared_example) (snd shared_example)))
     (source_size (sprites (snd shared_example) (fst shared_example))) =
     \<lparr>Size.width = 60, Size.height = 80\<rparr> \<and>
   rectangles (snd (invert_size (fst shared_example) (snd shared_example)))
     (rectangle (sprites (snd shared_example) (fst shared_example))) =
     \<lparr>Rectangle.x = 0, Rectangle.y = 0, Rectangle.width = 80, Rectangle.height = 60\<rparr> \<and>
   sizes (snd (inverted_size (fst shared_example) (snd shared_example)))
     (size_s (sprites (snd (inverted_size (fst shared_example) (snd shared_example)))
        (fst (inverted_size (fst shared_example) (snd shared_example))))) =
     \<lparr>Size.width = 80, Size.height = 60\<rparr> \<and>
   \<not> invert_size_post (snd shared_example) (fst shared_example)"
  by (simp add: invert_size_post_def invert_defs inverted_defs example_defs new_defs
      split_def)

text \<open>
  Claim C10. \<^verbatim>\<open>invert_size\<close> leaves the name, the aliases, the relative offset, the rotated
  flag, the copy level and the sheet of the sprite as they are. It changes no sprite, no
  set and no point, creates no object, changes no size but \<^verbatim>\<open>size\<close> and \<^verbatim>\<open>source_size\<close> and
  no rectangle but \<^verbatim>\<open>rectangle\<close>, and leaves the origin of the rectangle where it is.
\<close>

theorem invert_size_frame:
  "(let (r, h') = invert_size self h
    in name (sprites h' self) = name (sprites h self) \<and>
       aliases (sprites h' self) = aliases (sprites h self) \<and>
       sets h' (aliases (sprites h' self)) = sets h (aliases (sprites h self)) \<and>
       relative_offset (sprites h' self) = relative_offset (sprites h self) \<and>
       points h' (relative_offset (sprites h' self)) =
         points h (relative_offset (sprites h self)) \<and>
       rotated (sprites h' self) = rotated (sprites h self) \<and>
       copy_level (sprites h' self) = copy_level (sprites h self) \<and>
       sheet_unchecked (sprites h' self) = sheet_unchecked (sprites h self) \<and>
       sprites h' = sprites h \<and> sets h' = sets h \<and> points h' = points h \<and>
       next_ref h' = next_ref h \<and>
       sizes h' = (sizes h)
         (size_s (sprites h self) := sizes h' (size_s (sprites h self)),
          source_size (sprites h self) := sizes h' (source_size (sprites h self))) \<and>
       rectangles h' = (rectangles h)
         (rectangle (sprites h self) := rectangles h' (rectangle (sprites h self))) \<and>
       Rectangle.x (rectangles h' (rectangle (sprites h self))) =
         Rectangle.x (rectangles h (rectangle (sprites h self))) \<and>
       Rectangle.y (rectangles h' (rectangle (sprites h self))) =
         Rectangle.y (rectangles h (rectangle (sprites h self))))"
  by (simp add: invert_defs split_def)

subsection \<open>Inversion into a new sprite\<close>

text \<open>
  Claim C6. \<^verbatim>\<open>inverted_size\<close> returns a new sprite with a new size, a new source size and a
  new rectangle: those of the sprite it was called on with width and height exchanged,
  the rectangle at the same origin. Its copy level is one more; its name, aliases,
  relative offset, rotated flag and sheet are those of the sprite it was called on. That
  sprite keeps every field, and its set, its point, its sizes and its rectangle keep
  their values.
\<close>

theorem inverted_size_correct:
  assumes "Sprite_allocated h self"
  shows "let (c, h') = inverted_size self h
         in next_ref h \<le> c \<and> c < next_ref h' \<and>
            next_ref h \<le> size_s (sprites h' c) \<and>
            next_ref h \<le> source_size (sprites h' c) \<and>
            next_ref h \<le> rectangle (sprites h' c) \<and>
            sizes h' (size_s (sprites h' c)) =
              \<lparr>Size.width = Size.height (sizes h (size_s (sprites h self))),
               Size.height = Size.width (sizes h (size_s (sprites h self)))\<rparr> \<and>
            sizes h' (source_size (sprites h' c)) =
              \<lparr>Size.width = Size.height (sizes h (source_size (sprites h self))),
               Size.height = Size.width (sizes h (source_size (sprites h self)))\<rparr> \<and>
            rectangles h' (rectangle (sprites h' c)) =
              \<lparr>Rectangle.x = Rectangle.x (rectangles h (rectangle (sprites h self))),
               Rectangle.y = Rectangle.y (rectangles h (rectangle (sprites h self))),
               Rectangle.width = Rectangle.height (rectangles h (rectangle (sprites h self))),
               Rectangle.height = Rectangle.width (rectangles h (rectangle (sprites h self)))\<rparr> \<and>
            copy_level (sprites h' c) = copy_level (sprites h self) + 1 \<and>
            name (sprites h' c) = name (sprites h self) \<and>
            aliases (sprites h' c) = aliases (sprites h self) \<and>
            relative_offset (sprites h' c) = relative_offset (sprites h self) \<and>
            rotated (sprites h' c) = rotated (sprites h self) \<and>
            sheet_unchecked (sprites h' c) = sheet_unchecked (sprites h self) \<and>
            sprites h' self = sprites h self \<and>
            sets h' = sets h \<and> points h' = points h \<and>
            sizes h' (size_s (sprites h self)) = sizes h (size_s (sprites h self)) \<and>
            sizes h' (source_size (sprites h self)) = sizes h (source_size (sprites h self)) \<and>
            rectangles h' (rectangle (sprites h self)) =
              rectangles h (rectangle (sprites h self))"
  using assms
  by (simp add: Sprite_allocated_def inverted_defs next_copy_level_def new_defs split_def)

lemma hero_example_values:
  "sizes (snd hero_example) 2 = \<lparr>Size.width = 60, Size.height = 80\<rparr> \<and>
   sizes (snd hero_example) 3 = \<lparr>Size.width = 100, Size.height = 80\<rparr> \<and>
   rectangles (snd hero_example) 4 =
     \<lparr>Rectangle.x = 10, Rectangle.y = 20, Rectangle.width = 60, Rectangle.height = 80\<rparr>"
  by (simp add: example_defs new_defs split_def)

text \<open>The example sprite inverted: a sprite at copy level 1 of size 80 by 60, source size
  80 by 100 and a rectangle of 80 by 60 at \<open>(10, 20)\<close>; the example keeps its rectangle.\<close>

theorem inverted_size_correct_witness:
  "Sprite_allocated (snd hero_example) (fst hero_example) \<and>
   (let (c, h') = inverted_size (fst hero_example) (snd hero_example)
    in sizes h' (size_s (sprites h' c)) = \<lparr>Size.width = 80, Size.height = 60\<rparr> \<and>
       sizes h' (source_size (sprites h' c)) = \<lparr>Size.width = 80, Size.height = 100\<rparr> \<and>
       rectangles h' (rectangle (sprites h' c)) =
         \<lparr>Rectangle.x = 10, Rectangle.y = 20, Rectangle.width = 80, Rectangle.height = 60\<rparr> \<and>
       copy_level (sprites h' c) = 1 \<and>
       rectangles h' 4 =
         \<lparr>Rectangle.x = 10, Rectangle.y = 20, Rectangle.width = 60, Rectangle.height = 80\<rparr>)"
  using inverted_size_correct [of "snd hero_example" "fst hero_example"]
    hero_example_refs hero_example_values
  by (simp add: Sprite_allocated_def split_def Let_def)

subsection \<open>Inverting twice\<close>

text \<open>The non-mutating forms, twice: the second new object has the value of the first
  object, which no call has changed.\<close>

lemma Point_inverted_twice:
  assumes "p < next_ref h"
  shows "let (p1, h1) = Point_inverted p h; (p2, h2) = Point_inverted p1 h1
         in points h2 p2 = points h2 p \<and> points h2 p = points h p"
  using assms by (simp add: Point_inverted_def new_Point_def split_def)

lemma Size_inverted_twice:
  assumes "s < next_ref h"
  shows "let (s1, h1) = Size_inverted s h; (s2, h2) = Size_inverted s1 h1
         in sizes h2 s2 = sizes h2 s \<and> sizes h2 s = sizes h s"
  using assms by (simp add: Size_inverted_def new_Size_def split_def)

lemma Rectangle_inverted_size_twice:
  assumes "r < next_ref h"
  shows "let (r1, h1) = Rectangle_inverted_size r h; (r2, h2) = Rectangle_inverted_size r1 h1
         in rectangles h2 r2 = rectangles h2 r \<and> rectangles h2 r = rectangles h r"
  using assms by (simp add: Rectangle_inverted_size_def new_Rectangle_def split_def)

text \<open>The mutating forms, twice: the object has its first value again, and so has the
  store.\<close>

lemma Point_invert_twice: "Point_invert p (snd (Point_invert p h)) = (p, h)"
  by (simp add: Point_invert_def fun_eq_iff)

lemma Size_invert_twice: "Size_invert s (snd (Size_invert s h)) = (s, h)"
  by (simp add: Size_invert_def fun_eq_iff)

lemma Rectangle_invert_size_twice:
  "Rectangle_invert_size r (snd (Rectangle_invert_size r h)) = (r, h)"
  by (simp add: Rectangle_invert_size_def fun_eq_iff)

lemma invert_size_self: "fst (invert_size self h) = self"
  by (simp add: invert_size_def split_def Let_def)

text \<open>In the two calls of \<^verbatim>\<open>invert_size\<close> every object is inverted an even number of times:
  twice, or four times when \<^verbatim>\<open>size\<close> and \<^verbatim>\<open>source_size\<close> are one object.\<close>

lemma invert_size_twice: "invert_size self (snd (invert_size self h)) = (self, h)"
proof (cases "size_s (sprites h self) = source_size (sprites h self)")
  case True
  then show ?thesis
    by (simp add: invert_defs split_def fun_eq_iff)
next
  case False
  then show ?thesis
    by (simp add: invert_defs split_def fun_eq_iff)
qed

text \<open>
  Claim C7. The \<^verbatim>\<open>inverted()\<close> of the \<^verbatim>\<open>inverted()\<close> of a point, of a size, and the
  \<^verbatim>\<open>inverted_size()\<close> of the \<^verbatim>\<open>inverted_size()\<close> of a rectangle, is a new object equal to
  the first, which is as it was. \<^verbatim>\<open>invert_size\<close> called twice on a sprite returns the
  sprite and the store as it was before the first call, so \<^verbatim>\<open>size\<close>, \<^verbatim>\<open>source_size\<close> and
  \<^verbatim>\<open>rectangle\<close> have their first values, whether or not the fields share an object.
\<close>

theorem inverted_twice:
  assumes "p < next_ref h" and "s < next_ref h" and "r < next_ref h"
  shows "(let (p1, h1) = Point_inverted p h; (p2, h2) = Point_inverted p1 h1
          in points h2 p2 = points h2 p \<and> points h2 p = points h p) \<and>
         (let (s1, h1) = Size_inverted s h; (s2, h2) = Size_inverted s1 h1
          in sizes h2 s2 = sizes h2 s \<and> sizes h2 s = sizes h s) \<and>
         (let (r1, h1) = Rectangle_inverted_size r h; (r2, h2) = Rectangle_inverted_size r1 h1
          in rectangles h2 r2 = rectangles h2 r \<and> rectangles h2 r = rectangles h r) \<and>
         (let (self1, h1) = invert_size self h in invert_size self1 h1 = (self, h))"
proof (intro conjI)
  show "let (p1, h1) = Point_inverted p h; (p2, h2) = Point_inverted p1 h1
        in points h2 p2 = points h2 p \<and> points h2 p = points h p"
    using assms(1) by (rule Point_inverted_twice)
  show "let (s1, h1) = Size_inverted s h; (s2, h2) = Size_inverted s1 h1
        in sizes h2 s2 = sizes h2 s \<and> sizes h2 s = sizes h s"
    using assms(2) by (rule Size_inverted_twice)
  show "let (r1, h1) = Rectangle_inverted_size r h; (r2, h2) = Rectangle_inverted_size r1 h1
        in rectangles h2 r2 = rectangles h2 r \<and> rectangles h2 r = rectangles h r"
    using assms(3) by (rule Rectangle_inverted_size_twice)
  show "let (self1, h1) = invert_size self h in invert_size self1 h1 = (self, h)"
    by (simp add: split_def invert_size_self invert_size_twice)
qed

text \<open>The point, the size and the rectangle of the example sprite, and the example sprite;
  inverted twice, its size is 60 by 80 again.\<close>

theorem inverted_twice_witness:
  "(1::nat) < next_ref (snd hero_example) \<and> (2::nat) < next_ref (snd hero_example) \<and>
   (4::nat) < next_ref (snd hero_example) \<and>
   (let (s1, h1) = Size_inverted 2 (snd hero_example); (s2, h2) = Size_inverted s1 h1
    in sizes h2 s2 = \<lparr>Size.width = 60, Size.height = 80\<rparr>) \<and>
   (let (r1, h1) = Rectangle_inverted_size 4 (snd hero_example);
        (r2, h2) = Rectangle_inverted_size r1 h1
    in rectangles h2 r2 =
         \<lparr>Rectangle.x = 10, Rectangle.y = 20, Rectangle.width = 60, Rectangle.height = 80\<rparr>) \<and>
   (let (self1, h1) = invert_size 5 (snd hero_example)
    in sizes (snd (invert_size self1 h1)) 2 = \<lparr>Size.width = 60, Size.height = 80\<rparr>)"
  using inverted_twice [of 1 "snd hero_example" 2 4 5] hero_example_refs hero_example_values
  by (simp add: split_def Let_def)

subsection \<open>The two forms of inversion\<close>

text \<open>
  Claim C8. The sprite that \<^verbatim>\<open>inverted_size\<close> returns is to equal, field by field, the
  sprite that \<^verbatim>\<open>invert_size\<close> returns for the \<^verbatim>\<open>copy\<close>. The code does not make them equal for
  every sprite. On the sprite of 60 by 80 whose \<^verbatim>\<open>size\<close> and \<^verbatim>\<open>source_size\<close> are one object,
  \<^verbatim>\<open>inverted_size\<close> returns a sprite of size and source size 80 by 60, while \<^verbatim>\<open>invert_size\<close>
  inverts the one object, which the copy shares, twice and returns a sprite of size and
  source size 60 by 80.
\<close>

theorem inverted_size_disagrees_shared:
  "sizes (snd (inverted_size (fst shared_example) (snd shared_example)))
     (size_s (sprites (snd (inverted_size (fst shared_example) (snd shared_example)))
        (fst (inverted_size (fst shared_example) (snd shared_example))))) =
     \<lparr>Size.width = 80, Size.height = 60\<rparr> \<and>
   sizes (snd (inverted_size (fst shared_example) (snd shared_example)))
     (source_size (sprites (snd (inverted_size (fst shared_example) (snd shared_example)))
        (fst (inverted_size (fst shared_example) (snd shared_example))))) =
     \<lparr>Size.width = 80, Size.height = 60\<rparr> \<and>
   sizes (snd (invert_size (fst (copy (fst shared_example) (snd shared_example)))
        (snd (copy (fst shared_example) (snd shared_example)))))
     (size_s (sprites (snd (copy (fst shared_example) (snd shared_example)))
        (fst (copy (fst shared_example) (snd shared_example))))) =
     \<lparr>Size.width = 60, Size.height = 80\<rparr> \<and>
   sizes (snd (invert_size (fst (copy (fst shared_example) (snd shared_example)))
        (snd (copy (fst shared_example) (snd shared_example)))))
     (source_size (sprites (snd (copy (fst shared_example) (snd shared_example)))
        (fst (copy (fst shared_example) (snd shared_example))))) =
     \<lparr>Size.width = 60, Size.height = 80\<rparr> \<and>
   \<not> inverted_size_agrees (snd shared_example) (fst shared_example)"
  by (simp add: inverted_size_agrees_def field_values_def inverted_defs invert_defs copy_def
      next_copy_level_def example_defs new_defs split_def)

end
